theory Spec2Isabelle
  imports Main "HOL-Library.AList" "HOL-Library.Sublist"
begin

section \<open>Integers, instants and durations\<close>

text \<open>
  Go's \<open>int64\<close> (and \<open>int\<close> on a 64-bit platform) is modelled by \<open>int\<close>, with the
  two's-complement wrap-around of every arithmetic operation of the source written out
  by \<open>i64\<close>.
\<close>

definition i64 :: "int \<Rightarrow> int" where
  "i64 x = (x + 2 ^ 63) mod 2 ^ 64 - 2 ^ 63"

text \<open>
  A \<open>time.Time\<close> (and a carbon instant) is the number of nanoseconds since the Unix
  epoch. \<open>Unix\<close> is \<open>t.Unix()\<close>, \<open>time_Unix s\<close> is \<open>time.Unix(s, 0)\<close>, and
  \<open>seconds n\<close> is the \<open>time.Duration\<close> computed by
  \<open>time.Duration(n) * time.Second\<close>, an \<open>int64\<close> count of nanoseconds.
\<close>

type_synonym instant = int

definition Unix :: "instant \<Rightarrow> int" where
  "Unix t = t div 1000000000"

definition time_Unix :: "int \<Rightarrow> instant" where
  "time_Unix s = s * 1000000000"

definition seconds :: "int \<Rightarrow> int" where
  "seconds n = i64 (n * 1000000000)"





section \<open>Errors\<close>

datatype error =
    ErrUuidNil
  | ErrExprInvalid
  | ErrSaveCron
  | ErrHttpCallbackInvalidStatusCode
  | ErrParse
  | ErrOther string

section \<open>The cron evaluator\<close>

text \<open>
  The cron library (\<open>cronexpr\<close>) is an external collaborator and a parameter of the
  model: \<open>cron expr\<close> is \<open>None\<close> when \<open>cronexpr.Parse(expr)\<close> returns an error, and
  \<open>Some e\<close> otherwise, where \<open>e s\<close> is \<open>Next(t).Unix()\<close> of the parsed expression for
  a reference instant \<open>t\<close> whose Unix second is \<open>s\<close>.
\<close>

type_synonym cronexpr = "string \<Rightarrow> (int \<Rightarrow> int) option"

text \<open>
  \<open>getNext\<close> returns Go's pair \<open>(next, err)\<close>: on a parse error \<open>next\<close> keeps its
  zero value. The reference is the given timestamp when it is positive, and the clock
  \<open>carbon.Now()\<close> otherwise.
\<close>

definition getNext :: "cronexpr \<Rightarrow> instant \<Rightarrow> string \<Rightarrow> int \<Rightarrow> int \<times> error option" where
  "getNext cron now expr timestamp =
     (case cron expr of
        None \<Rightarrow> (0, Some ErrParse)
      | Some e \<Rightarrow>
          (let t = (if 0 < timestamp then timestamp else Unix now)
           in (e t, None)))"

text \<open>
  Two instances of the evaluator, used to run the model on concrete inputs: the
  seven-field expression that fires every second, and the one that fires at second 0
  of every fifteenth minute.
\<close>

definition every :: "int \<Rightarrow> int \<Rightarrow> int" where
  "every n s = s + n - s mod n"

definition sample_cron :: cronexpr where
  "sample_cron expr =
     (if expr = ''* * * * * * *'' then Some (every 1)
      else if expr = ''0 */15 * * * * *'' then Some (every 900)
      else None)"


section \<open>Data model\<close>

text \<open>A recurring job definition, as persisted in the Store (field names as in the source).\<close>

record periodTask =
  Expr :: string
  Name :: string
  Uid :: string
  Payload :: string
  Next :: int
  Processed :: int
  MaxRetry :: int
  Timeout :: int

text \<open>The zero value of the struct: what \<open>var item periodTask\<close> holds before decoding.\<close>

definition zero_periodTask :: periodTask where
  "zero_periodTask =
     \<lparr>Expr = [], Name = [], Uid = [], Payload = [], Next = 0, Processed = 0,
      MaxRetry = 0, Timeout = 0\<rparr>"

text \<open>The payload envelope handed to the handler (struct \<open>Payload\<close> of the source).\<close>

record PayloadEnvelope =
  p_Category :: string
  p_Uid :: string
  p_Payload :: string

text \<open>
  The queue engine's task, built by \<open>asynq.NewTask(typename, payload, asynq.TaskID(id))\<close>,
  and the options of a submission, in the order the source appends them.
\<close>

record asynq_Task =
  t_Type :: string
  t_Payload :: string
  t_ID :: string

definition NewTask :: "string \<Rightarrow> string \<Rightarrow> string \<Rightarrow> asynq_Task" where
  "NewTask typename payload taskid = \<lparr>t_Type = typename, t_Payload = payload, t_ID = taskid\<rparr>"

datatype asynq_Option =
    asynq_Queue string
  | asynq_MaxRetry int
  | asynq_Timeout int
  | asynq_Retention int
  | asynq_ProcessAt instant
  | asynq_ProcessIn int

text \<open>An archived task as \<open>ListArchivedTasks\<close> reports it (\<open>asynq.TaskInfo\<close>).\<close>

record TaskInfo =
  ti_ID :: string
  ti_Type :: string
  ti_LastFailedAt :: instant
  ti_Retried :: int
  ti_MaxRetry :: int

text \<open>
  Modelled from the spec: the declaration of the worker's \<open>Options\<close> is not among the
  sources. The fields are the ones the worker code reads (\<open>group\<close>, \<open>maxRetry\<close>,
  \<open>retention\<close>, \<open>handler\<close>, \<open>callback\<close>), and \<open>ops_timeout\<close> is the group default
  timeout the specification speaks of; no function of the source reads it.
\<close>

record Options =
  ops_group :: string
  ops_maxRetry :: int
  ops_retention :: int
  ops_timeout :: int
  ops_handler :: "(PayloadEnvelope \<Rightarrow> error option) option"
  ops_callback :: string

text \<open>
  Modelled from the spec: the declaration of \<open>RunOptions\<close> is not among the sources
  either. A value of this record is the \<open>ops\<close> that \<open>Cron\<close> and \<open>Once\<close> hold after
  applying the caller's option functions to the defaults.
\<close>

record RunOptions =
  run_uid :: string
  run_category :: string
  run_payload :: string
  run_expr :: string
  run_in :: "int option"
  run_at :: "instant option"
  run_now :: bool
  run_retention :: int
  run_maxRetry :: int
  run_timeout :: int

section \<open>The external collaborators\<close>

text \<open>
  The queue engine is a parameter: a state of any type \<open>'q\<close> with the three calls the
  worker makes. \<open>None\<close> is Go's \<open>err == nil\<close>.
\<close>

record 'q engine =
  enqueue :: "'q \<Rightarrow> asynq_Task \<Rightarrow> asynq_Option list \<Rightarrow> error option \<times> 'q"
  list_archived :: "'q \<Rightarrow> string \<Rightarrow> error + TaskInfo list"
  delete_task :: "'q \<Rightarrow> string \<Rightarrow> string \<Rightarrow> error option \<times> 'q"

text \<open>
  Every call the worker makes to the Lock, the Store and the queue engine, with its
  outcome where the worker reads one.
\<close>

datatype call =
    CallLock bool
  | CallUnlock
  | CallHGetAll
  | CallHGet string
  | CallHSet string periodTask
  | CallHDel string
  | CallExec "(string \<times> periodTask) list"
  | CallEnqueue asynq_Task "asynq_Option list" "error option"
  | CallListArchived string
  | CallDeleteTask string string

text \<open>
  The world outside the worker: the Redis hash at \<open>redisPeriodKey\<close> (field, decoded
  record), the state of the queue engine, whether Redis answers, and the calls made so
  far. The JSON encoding of a record is taken to round-trip.
\<close>

record 'q world =
  store :: "(string \<times> periodTask) list"
  queue :: 'q
  redis_up :: bool
  calls :: "call list"

definition record_call :: "call \<Rightarrow> 'q world \<Rightarrow> 'q world" where
  "record_call c w = w\<lparr>calls := calls w @ [c]\<rparr>"

datatype redis_error = redis_Nil | redis_Other

text \<open>
  \<open>HGet\<close> followed by \<open>FromString\<close>: the decoded record and the error of the read. On
  an error the string read is empty, so the decoded record is the zero value.
\<close>

definition HGet :: "string \<Rightarrow> 'q world \<Rightarrow> (periodTask \<times> redis_error option) \<times> 'q world" where
  "HGet uid w =
     ((if \<not> redis_up w then (zero_periodTask, Some redis_Other)
       else case map_of (store w) uid of
              None \<Rightarrow> (zero_periodTask, Some redis_Nil)
            | Some r \<Rightarrow> (r, None)),
      record_call (CallHGet uid) w)"

definition HSet :: "string \<Rightarrow> periodTask \<Rightarrow> 'q world \<Rightarrow> redis_error option \<times> 'q world" where
  "HSet uid r w =
     (if redis_up w
      then (None, record_call (CallHSet uid r) (w\<lparr>store := AList.update uid r (store w)\<rparr>))
      else (Some redis_Other, record_call (CallHSet uid r) w))"

definition HDel :: "string \<Rightarrow> 'q world \<Rightarrow> 'q world" where
  "HDel uid w =
     record_call (CallHDel uid)
       (if redis_up w then w\<lparr>store := AList.delete uid (store w)\<rparr> else w)"

definition HGetAll :: "'q world \<Rightarrow> periodTask list \<times> 'q world" where
  "HGetAll w = ((if redis_up w then map snd (store w) else []), record_call CallHGetAll w)"

text \<open>The pipeline is the list of queued \<open>HSet\<close> commands; \<open>Exec\<close> sends them in order.\<close>

definition Exec :: "(string \<times> periodTask) list \<Rightarrow> 'q world \<Rightarrow> 'q world" where
  "Exec p w =
     record_call (CallExec p)
       (if redis_up w
        then w\<lparr>store := fold (\<lambda>(uid, r) st. AList.update uid r st) p (store w)\<rparr>
        else w)"

definition Unlock :: "'q world \<Rightarrow> 'q world" where
  "Unlock w = record_call CallUnlock w"

definition Enqueue ::
  "'q engine \<Rightarrow> asynq_Task \<Rightarrow> asynq_Option list \<Rightarrow> 'q world \<Rightarrow> error option \<times> 'q world" where
  "Enqueue eng t taskOpts w =
     (case enqueue eng (queue w) t taskOpts of
        (err, q) \<Rightarrow> (err, record_call (CallEnqueue t taskOpts err) (w\<lparr>queue := q\<rparr>)))"

definition DeleteTask :: "'q engine \<Rightarrow> string \<Rightarrow> string \<Rightarrow> 'q world \<Rightarrow> error option \<times> 'q world" where
  "DeleteTask eng qname taskid w =
     (case delete_task eng (queue w) qname taskid of
        (err, q) \<Rightarrow> (err, record_call (CallDeleteTask qname taskid) (w\<lparr>queue := q\<rparr>)))"

text \<open>
  The Lock itself (\<open>lock.NxLock\<close>) is not among the sources: what it answers to an
  attempt is an input of the model. The blocking acquisition
  \<open>for { ok = Lock(); if ok { break }; Sleep }\<close>: \<open>polls\<close> are
  the answers of the Lock to the successive attempts. The loop returns at the first
  \<open>True\<close>; when no answer is \<open>True\<close> it never returns, which is \<open>None\<close>.
\<close>

fun lock_wait :: "bool list \<Rightarrow> 'q world \<Rightarrow> 'q world option" where
  "lock_wait [] w = None"
| "lock_wait (ok # polls) w =
     (if ok then Some (record_call (CallLock ok) w)
      else lock_wait polls (record_call (CallLock ok) w))"

text \<open>
  What the queue engine makes of a list of options: a later option of a kind overrides
  an earlier one.
\<close>

fun lastMaxRetry :: "asynq_Option list \<Rightarrow> int option" where
  "lastMaxRetry [] = None"
| "lastMaxRetry (x # xs) =
     (case lastMaxRetry xs of
        Some n \<Rightarrow> Some n
      | None \<Rightarrow> (case x of asynq_MaxRetry n \<Rightarrow> Some n | _ \<Rightarrow> None))"

fun lastTimeout :: "asynq_Option list \<Rightarrow> int option" where
  "lastTimeout [] = None"
| "lastTimeout (x # xs) =
     (case lastTimeout xs of
        Some n \<Rightarrow> Some n
      | None \<Rightarrow> (case x of asynq_Timeout n \<Rightarrow> Some n | _ \<Rightarrow> None))"

fun lastQueue :: "asynq_Option list \<Rightarrow> string option" where
  "lastQueue [] = None"
| "lastQueue (x # xs) =
     (case lastQueue xs of
        Some n \<Rightarrow> Some n
      | None \<Rightarrow> (case x of asynq_Queue n \<Rightarrow> Some n | _ \<Rightarrow> None))"

fun lastRetention :: "asynq_Option list \<Rightarrow> int option" where
  "lastRetention [] = None"
| "lastRetention (x # xs) =
     (case lastRetention xs of
        Some n \<Rightarrow> Some n
      | None \<Rightarrow> (case x of asynq_Retention n \<Rightarrow> Some n | _ \<Rightarrow> None))"


section \<open>Registration\<close>

text \<open>
  \<open>Worker.Once\<close>. \<open>wops\<close> is the worker's \<open>wk.ops\<close>, \<open>ops\<close> the run options. The result
  is the error returned and the world after the call.
\<close>

definition Once ::
  "'q engine \<Rightarrow> Options \<Rightarrow> RunOptions \<Rightarrow> 'q world \<Rightarrow> error option \<times> 'q world" where
  "Once eng wops ops w =
     (if run_uid ops = [] then (Some ErrUuidNil, w)
      else
        (let t = NewTask (run_category ops @ ''.once'') (run_payload ops) (run_uid ops);
             taskOpts = [asynq_Queue (ops_group wops), asynq_MaxRetry (ops_maxRetry wops),
                         asynq_Timeout (seconds (run_timeout ops))];
             taskOpts = (if 0 < run_maxRetry ops
                         then taskOpts @ [asynq_MaxRetry (run_maxRetry ops)] else taskOpts);
             taskOpts = (if 0 < run_retention ops
                         then taskOpts @ [asynq_Retention (seconds (run_retention ops))]
                         else taskOpts @ [asynq_Retention (seconds (ops_retention wops))]);
             taskOpts = (case run_in ops of
                           Some d \<Rightarrow> taskOpts @ [asynq_ProcessIn d]
                         | None \<Rightarrow>
                             (case run_at ops of
                                Some a \<Rightarrow> taskOpts @ [asynq_ProcessAt a]
                              | None \<Rightarrow>
                                  if run_now ops then taskOpts @ [asynq_ProcessIn 1000000000]
                                  else taskOpts))
         in Enqueue eng t taskOpts w))"

text \<open>\<open>Worker.Cron\<close>: \<open>now\<close> is the clock \<open>getNext\<close> reads.\<close>

definition Cron ::
  "cronexpr \<Rightarrow> instant \<Rightarrow> RunOptions \<Rightarrow> 'q world \<Rightarrow> error option \<times> 'q world" where
  "Cron cron now ops w =
     (if run_uid ops = [] then (Some ErrUuidNil, w)
      else
        (case getNext cron now (run_expr ops) 0 of
           (next, Some err) \<Rightarrow> (Some ErrExprInvalid, w)
         | (next, None) \<Rightarrow>
             (let t = \<lparr>Expr = run_expr ops, Name = run_category ops @ ''.cron'',
                       Uid = run_uid ops, Payload = run_payload ops, Next = next,
                       Processed = 0, MaxRetry = run_maxRetry ops,
                       Timeout = run_timeout ops\<rparr>
              in case HSet (run_uid ops) t w of
                   (Some err, w') \<Rightarrow> (Some ErrSaveCron, w')
                 | (None, w') \<Rightarrow> (None, w'))))"

text \<open>\<open>Worker.Remove\<close>; the deferred \<open>Unlock\<close> runs last.\<close>

definition Remove ::
  "'q engine \<Rightarrow> Options \<Rightarrow> bool list \<Rightarrow> string \<Rightarrow> 'q world \<Rightarrow> (error option \<times> 'q world) option" where
  "Remove eng wops polls uid w =
     (case lock_wait polls w of
        None \<Rightarrow> None
      | Some w1 \<Rightarrow>
          (case DeleteTask eng (ops_group wops) uid (HDel uid w1) of
             (err, w2) \<Rightarrow> Some (err, Unlock w2)))"

section \<open>The Dispatcher\<close>

text \<open>
  \<open>Worker.processed\<close>. \<open>processed_update\<close> is the part after the read, given what the
  read returned: the record is written back with its counter incremented unless the
  read reported \<open>redis.Nil\<close>.
\<close>

definition processed_update ::
  "periodTask \<times> redis_error option \<Rightarrow> string \<Rightarrow> 'q world \<Rightarrow> 'q world" where
  "processed_update reply uid w =
     (case reply of (item, e) \<Rightarrow>
        if e = None \<or> e \<noteq> Some redis_Nil
        then snd (HSet uid (item\<lparr>Processed := i64 (Processed item + 1)\<rparr>) w)
        else w)"

definition processed :: "bool list \<Rightarrow> string \<Rightarrow> 'q world \<Rightarrow> 'q world option" where
  "processed polls uid w =
     (case lock_wait polls w of
        None \<Rightarrow> None
      | Some w1 \<Rightarrow>
          (case HGet uid w1 of
             (reply, w2) \<Rightarrow> Some (Unlock (processed_update reply uid w2))))"





section \<open>The scan tick\<close>

definition scan_task :: "periodTask \<Rightarrow> asynq_Task" where
  "scan_task item = NewTask (Name item) (Payload item) (Uid item)"

text \<open>
  The options of the submission of one record, \<open>next\<close> being the occurrence computed
  for it. \<open>diff\<close> is above 10 where it is divided, so Go's truncating division is \<open>div\<close>.
\<close>

definition scan_opts :: "Options \<Rightarrow> int \<Rightarrow> periodTask \<Rightarrow> asynq_Option list" where
  "scan_opts ops next item =
     (let taskOpts = [asynq_Queue (ops_group ops), asynq_MaxRetry (ops_maxRetry ops),
                      asynq_Timeout (seconds (Timeout item))];
          taskOpts = (if 0 < MaxRetry item
                      then taskOpts @ [asynq_MaxRetry (MaxRetry item)] else taskOpts);
          diff = i64 (next - Next item);
          taskOpts = (if 10 < diff
                      then (let retention = diff div 3;
                                retention = (if 600 < diff then 600 else retention)
                            in taskOpts @ [asynq_Retention (seconds retention)])
                      else taskOpts)
      in taskOpts @ [asynq_ProcessAt (time_Unix (Next item))])"

definition scan_next :: "cronexpr \<Rightarrow> instant \<Rightarrow> periodTask \<Rightarrow> int" where
  "scan_next cron now item = fst (getNext cron now (Expr item) (Next item))"

text \<open>One iteration of the loop over the records read; \<open>p\<close> is the pipeline.\<close>

definition scan_item ::
  "'q engine \<Rightarrow> cronexpr \<Rightarrow> Options \<Rightarrow> instant \<Rightarrow> periodTask
     \<Rightarrow> 'q world \<times> (string \<times> periodTask) list \<Rightarrow> 'q world \<times> (string \<times> periodTask) list" where
  "scan_item eng cron ops now item wp =
     (case wp of (w, p) \<Rightarrow>
        (let next = scan_next cron now item;
             t = scan_task item;
             taskOpts = scan_opts ops next item
         in case Enqueue eng t taskOpts w of
              (None, w') \<Rightarrow> (w', p @ [(Uid item, item\<lparr>Next := next\<rparr>)])
            | (Some err, w') \<Rightarrow> (w', p)))"

text \<open>
  \<open>Worker.scan\<close>: \<open>ok\<close> is the answer of the Lock to the one attempt of the tick, and
  \<open>now\<close> the clock during the tick.
\<close>

definition scan ::
  "'q engine \<Rightarrow> cronexpr \<Rightarrow> Options \<Rightarrow> instant \<Rightarrow> bool \<Rightarrow> 'q world \<Rightarrow> 'q world" where
  "scan eng cron ops now ok w =
     (let w0 = record_call (CallLock ok) w
      in if \<not> ok then w0
         else
           (case HGetAll w0 of
              (m, w1) \<Rightarrow>
                (case fold (scan_item eng cron ops now) m (w1, []) of
                   (w2, p) \<Rightarrow> Unlock (Exec p w2))))"

text \<open>
  A description of a tick that holds the Lock, used to state what it does: the answers
  of the queue engine to the submissions of the records in the order read, the call
  made for a record and its answer, the write queued for a record, and the pipeline of
  a tick (one write per record whose submission succeeded).
\<close>

fun outcomes ::
  "'q engine \<Rightarrow> cronexpr \<Rightarrow> Options \<Rightarrow> instant \<Rightarrow> periodTask list \<Rightarrow> 'q
     \<Rightarrow> error option list \<times> 'q" where
  "outcomes eng cron ops now [] q = ([], q)"
| "outcomes eng cron ops now (item # m) q =
     (case enqueue eng q (scan_task item) (scan_opts ops (scan_next cron now item) item) of
        (err, q1) \<Rightarrow>
          (case outcomes eng cron ops now m q1 of (errs, q2) \<Rightarrow> (err # errs, q2)))"

definition submission_call ::
  "cronexpr \<Rightarrow> Options \<Rightarrow> instant \<Rightarrow> periodTask \<times> error option \<Rightarrow> call" where
  "submission_call cron ops now ie =
     CallEnqueue (scan_task (fst ie))
       (scan_opts ops (scan_next cron now (fst ie)) (fst ie)) (snd ie)"

definition advanced :: "cronexpr \<Rightarrow> instant \<Rightarrow> periodTask \<Rightarrow> string \<times> periodTask" where
  "advanced cron now item = (Uid item, item\<lparr>Next := scan_next cron now item\<rparr>)"

definition tick_pipeline ::
  "cronexpr \<Rightarrow> instant \<Rightarrow> (periodTask \<times> error option) list
     \<Rightarrow> (string \<times> periodTask) list" where
  "tick_pipeline cron now ies =
     map (\<lambda>ie. advanced cron now (fst ie)) (filter (\<lambda>ie. snd ie = None) ies)"


text \<open>
  A Store as registration leaves it: every record is held once, in the field of its
  own uid.
\<close>

definition keyed :: "(string \<times> periodTask) list \<Rightarrow> bool" where
  "keyed st = (distinct (map fst st) \<and> list_all (\<lambda>kr. Uid (snd kr) = fst kr) st)"

section \<open>The Archive Reaper\<close>





section \<open>The specification's wording, and sample inputs\<close>

text \<open>
  The retention and the timeout of a scan submission as the specification words them:
  \<open>min(diff/3, 600)\<close> seconds above a difference of 10, and the record's timeout
  when the record sets one, else the group default.
\<close>

definition spec_retention :: "int \<Rightarrow> int option" where
  "spec_retention diff = (if 10 < diff then Some (seconds (min (diff div 3) 600)) else None)"

definition spec_timeout :: "Options \<Rightarrow> periodTask \<Rightarrow> int" where
  "spec_timeout ops item =
     (if 0 < Timeout item then seconds (Timeout item) else seconds (ops_timeout ops))"




text \<open>
  A queue engine to run the model on: its state is the ids of the tasks it holds and
  the archived tasks it lists. A submission is refused when its task id is empty or
  already held.
\<close>

definition sample_engine :: "(string list \<times> TaskInfo list) engine" where
  "sample_engine =
     \<lparr>enqueue = (\<lambda>q t taskOpts.
          if t_ID t = [] \<or> t_ID t \<in> set (fst q) then (Some (ErrOther ''conflict''), q)
          else (None, (t_ID t # fst q, snd q))),
      list_archived = (\<lambda>q qname. Inr (snd q)),
      delete_task = (\<lambda>q qname taskid.
          (None, (filter (\<lambda>i. i \<noteq> taskid) (fst q),
                  filter (\<lambda>i. ti_ID i \<noteq> taskid) (snd q))))\<rparr>"

definition sample_ops :: Options where
  "sample_ops =
     \<lparr>ops_group = ''task'', ops_maxRetry = 3, ops_retention = 60, ops_timeout = 10,
      ops_handler = None, ops_callback = []\<rparr>"

definition sample_run :: RunOptions where
  "sample_run =
     \<lparr>run_uid = ''a'', run_category = ''report'', run_payload = ''p1'',
      run_expr = ''* * * * * * *'', run_in = None, run_at = None, run_now = False,
      run_retention = 0, run_maxRetry = 0, run_timeout = 0\<rparr>"

text \<open>A record on the quarter-hour schedule, due at a multiple of 900 seconds.\<close>

definition sample_task :: periodTask where
  "sample_task =
     \<lparr>Expr = ''0 */15 * * * * *'', Name = ''report.cron'', Uid = ''a'', Payload = ''p1'',
      Next = 1700000100, Processed = 5, MaxRetry = 0, Timeout = 0\<rparr>"

definition sample_world :: "(string list \<times> TaskInfo list) world" where
  "sample_world =
     \<lparr>store = [(''a'', sample_task)], queue = ([], []), redis_up = True, calls = []\<rparr>"


section \<open>Properties of the cron evaluator wrapper\<close>

lemma getNext_parsed:
  "cron expr = Some e \<Longrightarrow>
     getNext cron now expr timestamp = (e (if 0 < timestamp then timestamp else Unix now), None)"
  by (simp add: getNext_def)

lemma getNext_unparsed:
  "cron expr = None \<Longrightarrow> getNext cron now expr timestamp = (0, Some ErrParse)"
  by (simp add: getNext_def)







section \<open>Arithmetic within the \<open>int64\<close> range\<close>

lemma i64_id: "- (2 ^ 63) \<le> x \<Longrightarrow> x < 2 ^ 63 \<Longrightarrow> i64 x = x"
  by (simp add: i64_def)

lemma seconds_small: "0 \<le> n \<Longrightarrow> n \<le> 600 \<Longrightarrow> seconds n = n * 1000000000"
  by (simp add: seconds_def i64_id)

section \<open>The blocking acquisition of the Lock\<close>

lemma lock_wait_calls:
  "True \<in> set polls \<Longrightarrow>
     lock_wait polls w = Some (w\<lparr>calls := calls w @ map CallLock (takeWhile Not polls @ [True])\<rparr>)"
proof (induction polls arbitrary: w)
  case Nil
  then show ?case by simp
next
  case (Cons ok polls)
  show ?case
  proof (cases ok)
    case True
    then show ?thesis by (simp add: record_call_def)
  next
    case False
    with Cons.prems have "True \<in> set polls" by simp
    from Cons.IH [OF this] False show ?thesis by (simp add: record_call_def)
  qed
qed


lemma lock_wait_None: "True \<notin> set polls \<Longrightarrow> lock_wait polls w = None"
  by (induction polls arbitrary: w) auto

section \<open>Options of a scan submission\<close>

lemma scan_item_call:
  "calls (fst (scan_item eng cron ops now item (w, p))) =
     calls w @ [CallEnqueue (scan_task item) (scan_opts ops (scan_next cron now item) item)
        (fst (enqueue eng (queue w) (scan_task item)
           (scan_opts ops (scan_next cron now item) item)))]"
  by (simp add: scan_item_def Enqueue_def record_call_def Let_def split: prod.splits option.splits)

text \<open>
  C3, as amended. With \<open>diff\<close> the computed occurrence minus the record's stored
  \<open>next\<close> (in \<open>int64\<close> arithmetic, which is the plain difference whenever that fits
  64 bits): the submission carries a retention of 600 seconds when \<open>diff > 600\<close>, of
  \<open>diff / 3\<close> seconds when \<open>10 < diff \<le> 600\<close>, and no retention option when
  \<open>diff \<le> 10\<close>. Durations are in nanoseconds.
\<close>

theorem scan_retention:
  "lastRetention (scan_opts ops next item) =
     (if 600 < i64 (next - Next item) then Some 600000000000
      else if 10 < i64 (next - Next item)
           then Some (i64 (next - Next item) div 3 * 1000000000)
      else None)
   \<and> (- (2 ^ 63) \<le> next - Next item \<and> next - Next item < 2 ^ 63
        \<longrightarrow> i64 (next - Next item) = next - Next item)"
  by (simp add: scan_opts_def Let_def seconds_small i64_id)

theorem scan_retention_witness:
  "- (2 ^ 63) \<le> 1700001000 - Next sample_task \<and> 1700001000 - Next sample_task < 2 ^ 63
   \<and> i64 (1700001000 - Next sample_task) = 900
   \<and> lastRetention (scan_opts sample_ops 1700001000 sample_task) = Some 600000000000"
  using scan_retention [of sample_ops 1700001000 sample_task]
  by (simp add: sample_task_def)

text \<open>
  C3 as stated fails between 600 and 1800: for the quarter-hour record the difference
  is 900 and the submission carries 600 seconds, where \<open>min(diff/3, 600)\<close> is 300.
\<close>

theorem scan_retention_counterexample:
  "scan_next sample_cron (time_Unix 1700000000) sample_task = 1700001000
   \<and> lastRetention (scan_opts sample_ops 1700001000 sample_task) = Some 600000000000
   \<and> spec_retention (1700001000 - Next sample_task) = Some 300000000000
   \<and> lastRetention (scan_opts sample_ops 1700001000 sample_task)
        \<noteq> spec_retention (1700001000 - Next sample_task)"
  by (simp add: scan_next_def getNext_def sample_cron_def every_def sample_task_def
      scan_opts_def Let_def spec_retention_def seconds_def i64_def)

text \<open>
  C5, as amended. The submission the tick makes for a record is the call recorded by
  \<open>scan_item\<close>; it targets the queue named by the group, its retry limit is the
  record's \<open>maxRetry\<close> when that is positive and the group default otherwise, and its
  timeout is always the record's timeout, with no group default behind it.
\<close>

theorem scan_submission_options:
  "calls (fst (scan_item eng cron ops now item (w, p))) =
     calls w @ [CallEnqueue (scan_task item) (scan_opts ops (scan_next cron now item) item)
        (fst (enqueue eng (queue w) (scan_task item)
           (scan_opts ops (scan_next cron now item) item)))]
   \<and> lastQueue (scan_opts ops next item) = Some (ops_group ops)
   \<and> lastMaxRetry (scan_opts ops next item) =
       Some (if 0 < MaxRetry item then MaxRetry item else ops_maxRetry ops)
   \<and> lastTimeout (scan_opts ops next item) = Some (seconds (Timeout item))"
  by (simp add: scan_item_call scan_opts_def Let_def)

text \<open>
  C5 as stated fails for a record that sets no timeout: the submission carries the
  timeout 0, not the group default of 10 seconds.
\<close>

theorem scan_timeout_counterexample:
  "lastTimeout (scan_opts sample_ops 1700001000 sample_task) = Some 0
   \<and> spec_timeout sample_ops sample_task = 10000000000
   \<and> lastTimeout (scan_opts sample_ops 1700001000 sample_task)
        \<noteq> Some (spec_timeout sample_ops sample_task)"
  by (simp add: scan_opts_def Let_def spec_timeout_def sample_ops_def sample_task_def
      seconds_def i64_def)

section \<open>Validation at registration, and the envelope\<close>

text \<open>
  C9. \<open>Cron\<close> and \<open>Once\<close> called with an empty uid return \<open>ErrUuidNil\<close>, and
  \<open>Cron\<close> called with an expression the evaluator rejects returns an error
  (\<open>ErrExprInvalid\<close> when the uid is not empty); in each case the world is the one
  before the call: no record written, nothing submitted, no call made at all.
\<close>

theorem registration_validates_first:
  "(run_uid ops = [] \<longrightarrow>
      Cron cron now ops w = (Some ErrUuidNil, w) \<and> Once eng wops ops w = (Some ErrUuidNil, w))
   \<and> (run_uid ops \<noteq> [] \<and> cron (run_expr ops) = None \<longrightarrow>
        Cron cron now ops w = (Some ErrExprInvalid, w))
   \<and> (cron (run_expr ops) = None \<longrightarrow>
        fst (Cron cron now ops w) \<noteq> None \<and> snd (Cron cron now ops w) = w)"
  by (simp add: Cron_def Once_def getNext_def)

theorem registration_validates_first_witness:
  "run_uid (sample_run\<lparr>run_uid := []\<rparr>) = []
   \<and> Cron sample_cron (time_Unix 1700000000) (sample_run\<lparr>run_uid := []\<rparr>) sample_world
       = (Some ErrUuidNil, sample_world)
   \<and> Once sample_engine sample_ops (sample_run\<lparr>run_uid := []\<rparr>) sample_world
       = (Some ErrUuidNil, sample_world)
   \<and> run_uid (sample_run\<lparr>run_expr := ''every day''\<rparr>) \<noteq> []
   \<and> sample_cron (run_expr (sample_run\<lparr>run_expr := ''every day''\<rparr>)) = None
   \<and> Cron sample_cron (time_Unix 1700000000) (sample_run\<lparr>run_expr := ''every day''\<rparr>) sample_world
       = (Some ErrExprInvalid, sample_world)"
  using registration_validates_first [of "sample_run\<lparr>run_uid := []\<rparr>" sample_cron
      "time_Unix 1700000000" sample_world sample_engine sample_ops]
    registration_validates_first [of "sample_run\<lparr>run_expr := ''every day''\<rparr>" sample_cron
      "time_Unix 1700000000" sample_world sample_engine sample_ops]
  by (simp add: sample_run_def sample_cron_def)





section \<open>What the reaper deletes\<close>








section \<open>The processed counter\<close>

lemma processed_found:
  assumes "True \<in> set polls" "redis_up w" "map_of (store w) uid = Some r"
  shows "processed polls uid w =
     Some (w\<lparr>store := AList.update uid (r\<lparr>Processed := i64 (Processed r + 1)\<rparr>) (store w),
             calls := calls w @ map CallLock (takeWhile Not polls @ [True])
                @ [CallHGet uid, CallHSet uid (r\<lparr>Processed := i64 (Processed r + 1)\<rparr>),
                   CallUnlock]\<rparr>)"
  using assms
  by (simp add: processed_def lock_wait_calls HGet_def HSet_def processed_update_def
      record_call_def Unlock_def)

lemma processed_missing:
  assumes "True \<in> set polls" "redis_up w" "map_of (store w) uid = None"
  shows "processed polls uid w =
     Some (w\<lparr>calls := calls w @ map CallLock (takeWhile Not polls @ [True])
                @ [CallHGet uid, CallUnlock]\<rparr>)"
  using assms
  by (simp add: processed_def lock_wait_calls HGet_def HSet_def processed_update_def
      record_call_def Unlock_def)







section \<open>What a tick that holds the Lock does\<close>


lemma scan_item_eq:
  "scan_item eng cron ops now item (w, p) =
     (case enqueue eng (queue w) (scan_task item) (scan_opts ops (scan_next cron now item) item) of
        (err, q) \<Rightarrow>
          (w\<lparr>queue := q, calls := calls w @ [submission_call cron ops now (item, err)]\<rparr>,
           p @ tick_pipeline cron now [(item, err)]))"
  by (simp add: scan_item_def Enqueue_def record_call_def Let_def submission_call_def
      tick_pipeline_def advanced_def split: prod.splits option.splits)

lemma scan_fold:
  "fold (scan_item eng cron ops now) m (w, p) =
     (case outcomes eng cron ops now m (queue w) of
        (errs, q) \<Rightarrow>
          (w\<lparr>queue := q, calls := calls w @ map (submission_call cron ops now) (zip m errs)\<rparr>,
           p @ tick_pipeline cron now (zip m errs)))"
proof (induction m arbitrary: w p)
  case Nil
  then show ?case by (simp add: tick_pipeline_def)
next
  case (Cons item m)
  show ?case
    by (simp add: scan_item_eq Cons.IH tick_pipeline_def split: prod.splits)
qed

lemma scan_acquired:
  assumes "redis_up w"
  shows "scan eng cron ops now True w =
     (case outcomes eng cron ops now (map snd (store w)) (queue w) of
        (errs, q) \<Rightarrow>
          w\<lparr>store := fold (\<lambda>(uid, r) st. AList.update uid r st)
                      (tick_pipeline cron now (zip (map snd (store w)) errs)) (store w),
            queue := q,
            calls := calls w @ [CallLock True, CallHGetAll]
               @ map (submission_call cron ops now) (zip (map snd (store w)) errs)
               @ [CallExec (tick_pipeline cron now (zip (map snd (store w)) errs)), CallUnlock]\<rparr>)"
  using assms
  by (simp add: scan_def Let_def HGetAll_def record_call_def scan_fold Exec_def Unlock_def
      split: prod.splits)

lemma scan_busy: "scan eng cron ops now False w = w\<lparr>calls := calls w @ [CallLock False]\<rparr>"
  by (simp add: scan_def Let_def record_call_def)













lemma scan_store:
  assumes "redis_up w" "outcomes eng cron ops now (map snd (store w)) (queue w) = (errs, q)"
  shows "store (scan eng cron ops now True w) =
     fold (\<lambda>(uid, r) st. AList.update uid r st)
       (tick_pipeline cron now (zip (map snd (store w)) errs)) (store w)"
  using assms by (simp add: scan_acquired)




section \<open>Every operation keeps the records under their own uids\<close>

lemma keyed_update: "keyed st \<Longrightarrow> Uid r = k \<Longrightarrow> keyed (AList.update k r st)"
proof -
  assume a: "keyed st" "Uid r = k"
  have "set (AList.update k r st) \<subseteq> insert (k, r) (set st)"
    by (induction st) auto
  with a show ?thesis
    by (auto simp: keyed_def list_all_iff distinct_update)
qed

lemma keyed_delete: "keyed st \<Longrightarrow> keyed (AList.delete k st)"
proof -
  assume a: "keyed st"
  have "set (AList.delete k st) \<subseteq> set st"
    by (auto simp: AList.delete_eq)
  with a distinct_delete [of st k] show ?thesis
    by (auto simp: keyed_def list_all_iff)
qed

lemma keyed_fold:
  "keyed st \<Longrightarrow> list_all (\<lambda>kr. Uid (snd kr) = fst kr) p \<Longrightarrow>
     keyed (fold (\<lambda>(uid, r) st. AList.update uid r st) p st)"
  by (induction p arbitrary: st) (auto simp: keyed_update)

lemma keyed_Cron: "keyed (store w) \<Longrightarrow> keyed (store (snd (Cron cron now ops w)))"
  by (auto simp: Cron_def HSet_def record_call_def Let_def keyed_update
      split: prod.splits option.splits)

lemma keyed_scan: "keyed (store w) \<Longrightarrow> keyed (store (scan eng cron ops now ok w))"
proof (cases "ok \<and> redis_up w")
  case True
  assume k: "keyed (store w)"
  obtain errs q where o: "outcomes eng cron ops now (map snd (store w)) (queue w) = (errs, q)"
    by (cases "outcomes eng cron ops now (map snd (store w)) (queue w)")
  have "list_all (\<lambda>kr. Uid (snd kr) = fst kr)
      (tick_pipeline cron now (zip (map snd (store w)) errs))"
    by (simp add: tick_pipeline_def advanced_def list_all_iff)
  from keyed_fold [OF k this] True o show ?thesis
    by (simp add: scan_store)
next
  case False
  assume k: "keyed (store w)"
  with False show ?thesis
    by (cases ok) (auto simp: scan_busy scan_def Let_def HGetAll_def Exec_def Unlock_def
        record_call_def split: prod.splits)
qed

lemma keyed_processed:
  "keyed (store w) \<Longrightarrow> processed polls uid w = Some w' \<Longrightarrow> keyed (store w')"
proof -
  assume k: "keyed (store w)" and p: "processed polls uid w = Some w'"
  from p have t: "True \<in> set polls"
    using lock_wait_None [of polls w] by (auto simp: processed_def split: option.splits)
  show ?thesis
  proof (cases "redis_up w")
    case False
    with p t k show ?thesis
      by (auto simp: processed_def lock_wait_calls HGet_def HSet_def processed_update_def
          record_call_def Unlock_def)
  next
    case True
    show ?thesis
    proof (cases "map_of (store w) uid")
      case None
      from processed_missing [OF t True None] p k show ?thesis by auto
    next
      case (Some r)
      then have "(uid, r) \<in> set (store w)" by (rule map_of_SomeD)
      with k have "Uid r = uid" by (auto simp: keyed_def list_all_iff)
      then have "Uid (r\<lparr>Processed := i64 (Processed r + 1)\<rparr>) = uid" by simp
      from keyed_update [OF k this] processed_found [OF t True Some] p show ?thesis by auto
    qed
  qed
qed

lemma keyed_Remove:
  "keyed (store w) \<Longrightarrow> Remove eng wops polls uid w = Some (err, w') \<Longrightarrow> keyed (store w')"
proof -
  assume k: "keyed (store w)" and p: "Remove eng wops polls uid w = Some (err, w')"
  from p have t: "True \<in> set polls"
    using lock_wait_None [of polls w] by (auto simp: Remove_def split: option.splits)
  from p t k show ?thesis
    by (auto simp: Remove_def lock_wait_calls HDel_def DeleteTask_def record_call_def
        Unlock_def keyed_delete split: prod.splits if_splits)
qed

section \<open>The scan tick and the stored \<open>next\<close>\<close>











end
